theory Spec2Isabelle
  imports Complex_Main "HOL-Library.Multiset"
begin

section \<open>The schema: tables as lists of rows\<close>

text \<open>
  The program is the PL/pgSQL of the schema file: six tables and the functions
  \<open>evaluate_match\<close>, \<open>broadcast_request\<close>, \<open>record_agent_response\<close> and
  \<open>get_ranked_results\<close>. A table is the list of its rows; a nullable column is an
  \<open>option\<close> (\<open>None\<close> is SQL NULL); a JSONB array of text is a \<open>string list\<close>, which keeps
  order and duplicates as JSONB does; a UUID is an opaque identifier, here a natural
  number. A FLOAT value is a real number, and the values the functions report (the
  quotient of two array lengths, the weighted sum) are given exactly, where PostgreSQL
  rounds them to double precision; the comparison of the quotient with 0.3 comes out
  the same either way, since a quotient of two 32-bit lengths other than 3/10 is
  further from it than the rounding. Where the order of two FLOAT values decides the
  outcome, in the ORDER BY of \<open>get_ranked_results\<close>, the values are computed in double
  precision, operation by operation. The columns
  \<open>created_at\<close>, \<open>updated_at\<close>, \<open>completed_at\<close>, \<open>established_at\<close>, the embeddings, and
  the surrogate key of \<open>agent_messages\<close> are read by none of the four functions and are
  left out.
\<close>

type_synonym uuid = nat

record user =
  u_id :: uuid
  u_email :: string
  u_name :: string

record profile =
  p_user_id :: uuid
  p_title :: "string option"
  p_skills :: "string list option"

record connection =
  user_a_id :: uuid
  user_b_id :: uuid
  trust_score :: "real option"

text \<open>\<open>structured_query\<close> is a JSON object; \<open>->'skills'\<close> is NULL when the key is absent.\<close>

record structured_query =
  sq_skills :: "string list option"
  sq_availability :: "string option"

record service_request =
  sr_id :: uuid
  requesting_user_id :: uuid
  query_text :: string
  sr_structured_query :: structured_query
  sr_status :: string

record agent_response =
  ar_id :: uuid
  ar_request_id :: uuid
  ar_responding_user_id :: uuid
  ar_is_match :: "bool option"
  ar_match_score :: "real option"
  ar_match_explanation :: "string option"
  ar_matched_skills :: "string list option"

datatype payload =
  Broadcast_payload uuid
  | Response_payload uuid "bool option"

record agent_message =
  from_user_id :: uuid
  to_user_id :: "uuid option"
  message_type :: string
  msg_payload :: payload
  msg_request_id :: "uuid option"

record db =
  users :: "user list"
  profiles :: "profile list"
  connections :: "connection list"
  service_requests :: "service_request list"
  agent_responses :: "agent_response list"
  agent_messages :: "agent_message list"

datatype sql_error =
  not_null_violation
  | unique_violation
  | foreign_key_violation
  | invalid_parameter_value
  | numeric_value_out_of_range

section \<open>SQL built-ins used by the functions\<close>

text \<open>
  A JSONB value that is read as a list of skills: an array of text, or JSON null.
  \<open>jsonb_array_elements_text\<close> is strict, so on SQL NULL (\<open>None\<close>) it yields no row; on a
  value that is not an array it raises ``cannot extract elements from a scalar''
  (SQLSTATE 22023).
\<close>

datatype jsonb = Json_null | Json_array "string list"

definition jsonb_array_elements_text :: "jsonb option \<Rightarrow> sql_error + string list" where
  "jsonb_array_elements_text j =
     (case j of
        None \<Rightarrow> Inr []
      | Some Json_null \<Rightarrow> Inl invalid_parameter_value
      | Some (Json_array xs) \<Rightarrow> Inr xs)"

definition jsonb_array_length :: "string list option \<Rightarrow> nat option" where
  "jsonb_array_length j = (case j of None \<Rightarrow> None | Some xs \<Rightarrow> Some (length xs))"

text \<open>The aggregates \<open>jsonb_agg\<close>, \<open>json_agg\<close> and \<open>array_agg\<close> are NULL over no rows.\<close>

definition sql_agg :: "'a list \<Rightarrow> 'a list option" where
  "sql_agg rows = (if rows = [] then None else Some rows)"

text \<open>\<open>GREATEST(x, 1)\<close> ignores a NULL argument.\<close>

definition greatest_1 :: "nat option \<Rightarrow> nat" where
  "greatest_1 x = (case x of None \<Rightarrow> 1 | Some n \<Rightarrow> max n 1)"

text \<open>\<open>unnest\<close> of a NULL array yields no row; \<open>array_length(a, 1)\<close> is NULL for a
  NULL or empty array.\<close>

definition unnest :: "'a list option \<Rightarrow> 'a list" where
  "unnest a = (case a of None \<Rightarrow> [] | Some xs \<Rightarrow> xs)"

definition array_length :: "'a list option \<Rightarrow> nat option" where
  "array_length a = (case a of None \<Rightarrow> None | Some xs \<Rightarrow> (if xs = [] then None else Some (length xs)))"

definition coalesce :: "'a option \<Rightarrow> 'a \<Rightarrow> 'a" where
  "coalesce x d = (case x of None \<Rightarrow> d | Some v \<Rightarrow> v)"

text \<open>\<open>format('%s', n)\<close> writes an integer in decimal and NULL as the empty string.\<close>

definition digit_char :: "nat \<Rightarrow> char" where
  "digit_char n = ''0123456789'' ! (n mod 10)"

function text_of_nat :: "nat \<Rightarrow> string" where
  "text_of_nat n = (if n < 10 then [digit_char n] else text_of_nat (n div 10) @ [digit_char n])"
  by pat_completeness auto
termination
  by (relation "measure id") auto

declare text_of_nat.simps [simp del]

definition format_s :: "nat option \<Rightarrow> string" where
  "format_s x = (case x of None \<Rightarrow> [] | Some n \<Rightarrow> text_of_nat n)"

text \<open>A LEFT JOIN keeps a row with no partner, with NULLs (\<open>None\<close>) on the right.\<close>

definition left_join :: "'a list \<Rightarrow> ('a \<Rightarrow> bool) \<Rightarrow> 'a option list" where
  "left_join tbl on = (case filter on tbl of [] \<Rightarrow> [None] | m # ms \<Rightarrow> map Some (m # ms))"

section \<open>evaluate\_match\<close>

record match_result =
  is_match :: bool
  match_score :: real
  matched_skills :: "string list"
  explanation :: string

text \<open>
  \<open>SELECT ... INTO\<close> takes the first row found, and NULL when there is none.
  \<open>request_data->'skills'\<close> is NULL without a request or without the key.
\<close>

definition request_data_skills :: "db \<Rightarrow> uuid \<Rightarrow> string list option" where
  "request_data_skills d p_request_id =
     (case find (\<lambda>sr. sr_id sr = p_request_id) (service_requests d) of
        None \<Rightarrow> None
      | Some sr \<Rightarrow> sq_skills (sr_structured_query sr))"

text \<open>
  \<open>profile_data\<close> is \<open>row_to_json(p)::jsonb\<close>, which has every column as a key and writes
  a NULL column as JSON null. So \<open>profile_data->'skills'\<close> is SQL NULL only when there is
  no profile row; for a row whose \<open>skills\<close> is NULL it is JSON null.
\<close>

definition profile_data_skills :: "db \<Rightarrow> uuid \<Rightarrow> jsonb option" where
  "profile_data_skills d p_candidate_user_id =
     (case find (\<lambda>p. p_user_id p = p_candidate_user_id) (profiles d) of
        None \<Rightarrow> None
      | Some p \<Rightarrow> Some (case p_skills p of None \<Rightarrow> Json_null | Some xs \<Rightarrow> Json_array xs))"

text \<open>
  The FROM item reads the profile's skills and raises on JSON null; the rows that pass
  the IN test are aggregated, and both branches of the IF build the result.
\<close>

definition evaluate_match :: "db \<Rightarrow> uuid \<Rightarrow> uuid \<Rightarrow> sql_error + match_result" where
  "evaluate_match d p_request_id p_candidate_user_id =
     (let request_skills = request_data_skills d p_request_id;
          profile_skills = profile_data_skills d p_candidate_user_id
      in case jsonb_array_elements_text profile_skills of
           Inl e \<Rightarrow> Inl e
         | Inr skills \<Rightarrow>
        (case jsonb_array_elements_text (map_option Json_array request_skills) of
           Inl e \<Rightarrow> Inl e
         | Inr required \<Rightarrow>
        (case sql_agg (filter (\<lambda>skill. skill \<in> set required) skills) of
           Some ms \<Rightarrow>
             (let score = real (length ms) / real (greatest_1 (jsonb_array_length request_skills))
              in Inr \<lparr>is_match = (score \<ge> 0.3),
                      match_score = score,
                      matched_skills = ms,
                      explanation = ''Matched '' @ format_s (Some (length ms)) @ '' of ''
                         @ format_s (jsonb_array_length request_skills) @ '' required skills''\<rparr>)
         | None \<Rightarrow>
             Inr \<lparr>is_match = False,
                  match_score = 0,
                  matched_skills = [],
                  explanation = ''No matching skills found''\<rparr>)))"

section \<open>Constraints checked by INSERT\<close>

text \<open>
  A failed statement raises; none of the functions has an EXCEPTION block, so the error
  leaves the function and everything it did is rolled back. Each function returns its
  result or the error, paired with the store afterwards (the store before, on error).
\<close>

definition user_exists :: "db \<Rightarrow> uuid \<Rightarrow> bool" where
  "user_exists d u = (u \<in> u_id ` set (users d))"

definition request_exists :: "db \<Rightarrow> uuid \<Rightarrow> bool" where
  "request_exists d r = (r \<in> sr_id ` set (service_requests d))"

text \<open>\<open>agent_messages\<close>: three foreign keys, two of them nullable.\<close>

definition message_fk_ok :: "db \<Rightarrow> agent_message \<Rightarrow> bool" where
  "message_fk_ok d m =
     (user_exists d (from_user_id m)
      \<and> (case to_user_id m of None \<Rightarrow> True | Some u \<Rightarrow> user_exists d u)
      \<and> (case msg_request_id m of None \<Rightarrow> True | Some r \<Rightarrow> request_exists d r))"

definition insert_agent_messages :: "db \<Rightarrow> agent_message list \<Rightarrow> sql_error + db" where
  "insert_agent_messages d rows =
     (if list_all (message_fk_ok d) rows
      then Inr (d\<lparr>agent_messages := agent_messages d @ rows\<rparr>)
      else Inl foreign_key_violation)"

text \<open>
  \<open>agent_responses\<close>: \<open>is_match\<close> is NOT NULL, \<open>id\<close> is the primary key,
  \<open>UNIQUE(request_id, responding_user_id)\<close>, and two foreign keys. NOT NULL is checked
  before the row reaches the unique indexes, the foreign keys at the end of the statement.
\<close>

definition response_key :: "agent_response \<Rightarrow> uuid \<times> uuid" where
  "response_key r = (ar_request_id r, ar_responding_user_id r)"

definition insert_agent_response :: "db \<Rightarrow> agent_response \<Rightarrow> sql_error + db" where
  "insert_agent_response d r =
     (if ar_is_match r = None then Inl not_null_violation
      else if ar_id r \<in> ar_id ` set (agent_responses d)
              \<or> response_key r \<in> response_key ` set (agent_responses d)
        then Inl unique_violation
      else if request_exists d (ar_request_id r) \<and> user_exists d (ar_responding_user_id r)
        then Inr (d\<lparr>agent_responses := agent_responses d @ [r]\<rparr>)
      else Inl foreign_key_violation)"

section \<open>broadcast\_request\<close>

record broadcast_result =
  broadcast_to :: "nat option"
  br_request_id :: uuid
  br_status :: string

definition connected_users :: "db \<Rightarrow> uuid \<Rightarrow> uuid list option" where
  "connected_users d p_requesting_user_id =
     sql_agg
       (map (\<lambda>c. if user_a_id c = p_requesting_user_id then user_b_id c else user_a_id c)
          (filter (\<lambda>c. user_a_id c = p_requesting_user_id \<or> user_b_id c = p_requesting_user_id)
             (connections d)))"

definition broadcast_request :: "db \<Rightarrow> uuid \<Rightarrow> uuid \<Rightarrow> (sql_error + broadcast_result) \<times> db" where
  "broadcast_request d p_requesting_user_id p_request_id =
     (let cu = connected_users d p_requesting_user_id;
          rows = map (\<lambda>v. \<lparr>from_user_id = p_requesting_user_id,
                            to_user_id = Some v,
                            message_type = ''query_broadcast'',
                            msg_payload = Broadcast_payload p_request_id,
                            msg_request_id = Some p_request_id\<rparr>)
                   (unnest cu)
      in case insert_agent_messages d rows of
           Inl e \<Rightarrow> (Inl e, d)
         | Inr d' \<Rightarrow>
             (Inr \<lparr>broadcast_to = array_length cu,
                   br_request_id = p_request_id,
                   br_status = ''sent''\<rparr>, d'))"

section \<open>record\_agent\_response\<close>

text \<open>The JSON argument: \<open>->>\<close> of an absent key is NULL.\<close>

record match_evaluation =
  ev_is_match :: "bool option"
  ev_match_score :: "real option"
  ev_explanation :: "string option"
  ev_matched_skills :: "string list option"

text \<open>
  \<open>new_id\<close> is the value \<open>uuid_generate_v4()\<close> gives the new row's \<open>id\<close>: a random value,
  so an argument of the model.
\<close>

definition record_agent_response ::
    "db \<Rightarrow> uuid \<Rightarrow> uuid \<Rightarrow> uuid \<Rightarrow> match_evaluation \<Rightarrow> (sql_error + uuid) \<times> db" where
  "record_agent_response d new_id p_request_id p_responding_user_id p_match_evaluation =
     (case insert_agent_response d
             \<lparr>ar_id = new_id,
              ar_request_id = p_request_id,
              ar_responding_user_id = p_responding_user_id,
              ar_is_match = ev_is_match p_match_evaluation,
              ar_match_score = ev_match_score p_match_evaluation,
              ar_match_explanation = ev_explanation p_match_evaluation,
              ar_matched_skills = ev_matched_skills p_match_evaluation\<rparr> of
        Inl e \<Rightarrow> (Inl e, d)
      | Inr d1 \<Rightarrow>
          (case insert_agent_messages d1
                  (map (\<lambda>sr. \<lparr>from_user_id = p_responding_user_id,
                               to_user_id = Some (requesting_user_id sr),
                               message_type = ''response'',
                               msg_payload = Response_payload new_id (ev_is_match p_match_evaluation),
                               msg_request_id = Some p_request_id\<rparr>)
                     (filter (\<lambda>sr. sr_id sr = p_request_id) (service_requests d1))) of
             Inl e \<Rightarrow> (Inl e, d)
           | Inr d2 \<Rightarrow> (Inr new_id, d2)))"

section \<open>get\_ranked\_results\<close>

record ranked_match =
  rm_user_id :: uuid
  rm_name :: string
  rm_title :: "string option"
  rm_match_score :: "real option"
  rm_matched_skills :: "string list option"
  rm_explanation :: "string option"
  rm_trust_score :: real
  rm_final_score :: "real option"

text \<open>The ON condition of the join with \<open>connections\<close>; \<open>sr\<close> is NULL when the
  response's request is missing, and then no connection joins.\<close>

definition connects :: "connection \<Rightarrow> uuid \<Rightarrow> uuid \<Rightarrow> bool" where
  "connects c requester candidate =
     ((user_a_id c = requester \<and> user_b_id c = candidate)
      \<or> (user_b_id c = requester \<and> user_a_id c = candidate))"

definition connection_on :: "service_request option \<Rightarrow> agent_response \<Rightarrow> connection \<Rightarrow> bool" where
  "connection_on sr ar c =
     (case sr of None \<Rightarrow> False
      | Some s \<Rightarrow> connects c (requesting_user_id s) (ar_responding_user_id ar))"

text \<open>\<open>c.trust_score\<close> of a joined row: NULL when no connection joined.\<close>

definition c_trust_score :: "connection option \<Rightarrow> real option" where
  "c_trust_score c = (case c of None \<Rightarrow> None | Some x \<Rightarrow> trust_score x)"

text \<open>The JSON object of one result row, with \<open>COALESCE(c.trust_score, 1.0)\<close> in two
  places; arithmetic on a NULL \<open>match_score\<close> is NULL.\<close>

definition ranked_object ::
    "agent_response \<Rightarrow> user \<Rightarrow> profile option \<Rightarrow> connection option \<Rightarrow> ranked_match" where
  "ranked_object ar u p c =
     \<lparr>rm_user_id = ar_responding_user_id ar,
      rm_name = u_name u,
      rm_title = (case p of None \<Rightarrow> None | Some x \<Rightarrow> p_title x),
      rm_match_score = ar_match_score ar,
      rm_matched_skills = ar_matched_skills ar,
      rm_explanation = ar_match_explanation ar,
      rm_trust_score = coalesce (c_trust_score c) 1,
      rm_final_score =
        (case ar_match_score ar of None \<Rightarrow> None
         | Some s \<Rightarrow> Some (s * 0.7 + coalesce (c_trust_score c) 1 * 0.3))\<rparr>"

text \<open>The joined and filtered rows, before the ORDER BY of the aggregate.\<close>

definition ranked_rows :: "db \<Rightarrow> uuid \<Rightarrow> ranked_match list" where
  "ranked_rows d p_request_id =
     [ranked_object ar u p c.
        ar \<leftarrow> agent_responses d,
        u \<leftarrow> filter (\<lambda>u. u_id u = ar_responding_user_id ar) (users d),
        p \<leftarrow> left_join (profiles d) (\<lambda>p. p_user_id p = ar_responding_user_id ar),
        sr \<leftarrow> left_join (service_requests d) (\<lambda>sr. sr_id sr = ar_request_id ar),
        c \<leftarrow> left_join (connections d) (connection_on sr ar),
        ar_request_id ar = p_request_id \<and> ar_is_match ar = Some True]"

section \<open>Double precision\<close>

text \<open>
  The ORDER BY expression is computed on FLOAT, that is IEEE double precision: a
  significand of 53 bits, binary exponents from -1022 to 1023, subnormal numbers below,
  and every operation rounded to the nearest double, a tie going to the even significand.
\<close>

definition round_half_even :: "real \<Rightarrow> int" where
  "round_half_even x =
     (let n = \<lfloor>x\<rfloor>; f = x - of_int n
      in if f < 1 / 2 then n else if 1 / 2 < f then n + 1 else if even n then n else n + 1)"

text \<open>
  The binade of a positive number: the exponent \<open>e\<close> with \<open>2 ^ e \<le> x < 2 ^ (e + 1)\<close>, kept
  within -1022 and 1023, paired with the power \<open>2 ^ e\<close>; searched downwards or upwards
  from exponent 0.
\<close>

function binade_down :: "int \<Rightarrow> real \<Rightarrow> real \<Rightarrow> int \<times> real" where
  "binade_down e p x =
     (if e \<le> - 1022 \<or> p \<le> x then (e, p) else binade_down (e - 1) (p / 2) x)"
  by pat_completeness auto
termination
  by (relation "measure (\<lambda>(e, p, x). nat (e + 1022))") auto

function binade_up :: "int \<Rightarrow> real \<Rightarrow> real \<Rightarrow> int \<times> real" where
  "binade_up e p x =
     (if 1023 \<le> e \<or> x < p * 2 then (e, p) else binade_up (e + 1) (p * 2) x)"
  by pat_completeness auto
termination
  by (relation "measure (\<lambda>(e, p, x). nat (1023 - e))") auto

declare binade_down.simps [simp del]

declare binade_up.simps [simp del]

definition binade :: "real \<Rightarrow> int \<times> real" where
  "binade x = (if x < 1 then binade_down 0 1 x else binade_up 0 1 x)"

text \<open>The nearest double; \<open>None\<close> when the number rounds beyond the largest double.\<close>

definition float8 :: "real \<Rightarrow> real option" where
  "float8 x =
     (if x = 0 then Some 0
      else let (e, p) = binade \<bar>x\<bar>;
               ulp = p / 2 ^ 52;
               m = round_half_even (\<bar>x\<bar> / ulp)
           in if e = 1023 \<and> 2 ^ 53 \<le> m then None else Some (sgn x * of_int m * ulp))"

text \<open>
  A value becomes a FLOAT by rounding, out of range being an error. \<open>float8mul\<close>
  raises ``value out of range'' (SQLSTATE 22003) on overflow and on underflow, that is
  a zero product of two factors that are not zero; \<open>float8pl\<close> raises on overflow.
\<close>

definition to_float8 :: "real \<Rightarrow> sql_error + real" where
  "to_float8 x = (case float8 x of None \<Rightarrow> Inl numeric_value_out_of_range | Some y \<Rightarrow> Inr y)"

definition float8_mul :: "real \<Rightarrow> real \<Rightarrow> sql_error + real" where
  "float8_mul a b =
     (case float8 (a * b) of
        None \<Rightarrow> Inl numeric_value_out_of_range
      | Some y \<Rightarrow>
          (if y = 0 \<and> a \<noteq> 0 \<and> b \<noteq> 0 then Inl numeric_value_out_of_range else Inr y))"

definition float8_pl :: "real \<Rightarrow> real \<Rightarrow> sql_error + real" where
  "float8_pl a b = (case float8 (a + b) of None \<Rightarrow> Inl numeric_value_out_of_range | Some y \<Rightarrow> Inr y)"

definition sql_bind :: "sql_error + 'a \<Rightarrow> ('a \<Rightarrow> sql_error + 'b) \<Rightarrow> sql_error + 'b" where
  "sql_bind x f = (case x of Inl e \<Rightarrow> Inl e | Inr v \<Rightarrow> f v)"

text \<open>A FLOAT column or variable times a numeric literal: both are taken as FLOAT.\<close>

definition float8_times :: "real \<Rightarrow> real \<Rightarrow> sql_error + real" where
  "float8_times x literal =
     sql_bind (to_float8 x) (\<lambda>a. sql_bind (to_float8 literal) (\<lambda>b. float8_mul a b))"

text \<open>
  \<open>ar.match_score * 0.7 + COALESCE(c.trust_score, 1.0) * 0.3\<close> in double precision. On a
  NULL \<open>match_score\<close> the first product and the sum are NULL and are not computed; the
  second product is.
\<close>

definition final_score_float8 :: "real option \<Rightarrow> real \<Rightarrow> sql_error + real option" where
  "final_score_float8 ms t =
     sql_bind (case ms of None \<Rightarrow> Inr None
               | Some s \<Rightarrow> sql_bind (float8_times s 0.7) (\<lambda>a. Inr (Some a)))
       (\<lambda>a. sql_bind (float8_times t 0.3)
          (\<lambda>b. case a of None \<Rightarrow> Inr None
                | Some x \<Rightarrow> sql_bind (float8_pl x b) (\<lambda>k. Inr (Some k))))"

section \<open>The order of get\_ranked\_results\<close>

text \<open>The ORDER BY expression of a row, from the row's match score and trust score.\<close>

definition order_key :: "ranked_match \<Rightarrow> sql_error + real option" where
  "order_key m = final_score_float8 (rm_match_score m) (rm_trust_score m)"

definition sort_key :: "ranked_match \<Rightarrow> real option" where
  "sort_key m = (case order_key m of Inl e \<Rightarrow> None | Inr k \<Rightarrow> k)"

text \<open>
  \<open>ORDER BY ... DESC\<close> has this one sort key (NULLs come first under DESC). SQL fixes
  the order of the aggregate's input no further: any arrangement of the rows that
  descends by the key is a result the query may give. \<open>get_ranked_results d r res\<close> holds
  when \<open>res\<close> is an outcome of the function: an error that the expression raises on a
  selected row; NULL, which is \<open>json_agg\<close> over no rows, returned as it is; or the rows
  in such an arrangement.
\<close>

fun desc_before :: "real option \<Rightarrow> real option \<Rightarrow> bool" where
  "desc_before None _ = True"
| "desc_before (Some a) None = False"
| "desc_before (Some a) (Some b) = (b \<le> a)"

definition ordered_desc :: "ranked_match list \<Rightarrow> ranked_match list \<Rightarrow> bool" where
  "ordered_desc rows out =
     (mset out = mset rows
      \<and> sorted_wrt (\<lambda>a b. desc_before (sort_key a) (sort_key b)) out)"

definition get_ranked_results :: "db \<Rightarrow> uuid \<Rightarrow> sql_error + ranked_match list option \<Rightarrow> bool" where
  "get_ranked_results d p_request_id res =
     (case res of
        Inl e \<Rightarrow> Inl e \<in> set (map order_key (ranked_rows d p_request_id))
      | Inr None \<Rightarrow> ranked_rows d p_request_id = []
      | Inr (Some out) \<Rightarrow>
          ranked_rows d p_request_id \<noteq> []
          \<and> list_all (\<lambda>m. \<not> isl (order_key m)) (ranked_rows d p_request_id)
          \<and> ordered_desc (ranked_rows d p_request_id) out)"

section \<open>The specification's notions\<close>

text \<open>
  The required skills of a request and the skills of a candidate's profile, as lists
  (empty when there is none). The specification words the evaluator over sets: the score
  is the size of the intersection over the size of the required set (at least 1).
\<close>

definition required_skills :: "db \<Rightarrow> uuid \<Rightarrow> string list" where
  "required_skills d r = (case request_data_skills d r of None \<Rightarrow> [] | Some xs \<Rightarrow> xs)"

definition profile_skills :: "db \<Rightarrow> uuid \<Rightarrow> string list" where
  "profile_skills d c =
     (case profile_data_skills d c of Some (Json_array xs) \<Rightarrow> xs | _ \<Rightarrow> [])"

definition spec_score :: "string list \<Rightarrow> string list \<Rightarrow> real" where
  "spec_score req prof = real (card (set req \<inter> set prof)) / real (max (card (set req)) 1)"

text \<open>\<open>UNIQUE(request_id, responding_user_id)\<close>, as a property of a store.\<close>

definition unique_responses :: "db \<Rightarrow> bool" where
  "unique_responses d = distinct (map response_key (agent_responses d))"

text \<open>The same store with the \<open>status\<close> column rewritten row by row.\<close>

definition with_status :: "(service_request \<Rightarrow> string) \<Rightarrow> db \<Rightarrow> db" where
  "with_status f d =
     d\<lparr>service_requests := map (\<lambda>sr. sr\<lparr>sr_status := f sr\<rparr>) (service_requests d)\<rparr>"

section \<open>Example stores\<close>

text \<open>
  The schema's sample data: Alice (1), Bob (2) and Carol (3) with their profiles and
  the three connections, and Bob's request (10) of the schema's example workflow. Added
  to it: Dave (4), who has no connection and whose profile lists a skill twice; Eve
  (5), whose profile has NULL for its skills; a completed request (11) of Bob's for
  Dave's skill; and a request (12) of Alice's.
\<close>

definition sample_db :: db where
  "sample_db =
     \<lparr>users =
        [\<lparr>u_id = 1, u_email = ''alice@example.com'', u_name = ''Alice Designer''\<rparr>,
         \<lparr>u_id = 2, u_email = ''bob@example.com'', u_name = ''Bob Developer''\<rparr>,
         \<lparr>u_id = 3, u_email = ''carol@example.com'', u_name = ''Carol Product Manager''\<rparr>,
         \<lparr>u_id = 4, u_email = ''dave@example.com'', u_name = ''Dave''\<rparr>,
         \<lparr>u_id = 5, u_email = ''eve@example.com'', u_name = ''Eve''\<rparr>],
      profiles =
        [\<lparr>p_user_id = 1, p_title = Some ''Senior UX Designer'',
          p_skills = Some [''UI/UX Design'', ''Figma'', ''Design Systems'', ''User Research'']\<rparr>,
         \<lparr>p_user_id = 2, p_title = Some ''Full-Stack Developer'',
          p_skills = Some [''React'', ''Node.js'', ''PostgreSQL'', ''TypeScript'']\<rparr>,
         \<lparr>p_user_id = 3, p_title = Some ''Product Manager'',
          p_skills = Some [''Product Strategy'', ''User Research'', ''Agile'', ''Roadmapping'']\<rparr>,
         \<lparr>p_user_id = 4, p_title = None,
          p_skills = Some [''Figma'', ''Figma'']\<rparr>,
         \<lparr>p_user_id = 5, p_title = None, p_skills = None\<rparr>],
      connections =
        [\<lparr>user_a_id = 1, user_b_id = 2, trust_score = Some 0.9\<rparr>,
         \<lparr>user_a_id = 2, user_b_id = 3, trust_score = Some 0.85\<rparr>,
         \<lparr>user_a_id = 1, user_b_id = 3, trust_score = Some 0.95\<rparr>],
      service_requests =
        [\<lparr>sr_id = 10, requesting_user_id = 2,
          query_text = ''Looking for a designer with Figma experience'',
          sr_structured_query =
            \<lparr>sq_skills = Some [''UI/UX Design'', ''Figma''], sq_availability = Some ''freelance''\<rparr>,
          sr_status = ''active''\<rparr>,
         \<lparr>sr_id = 11, requesting_user_id = 2,
          query_text = ''Figma'',
          sr_structured_query = \<lparr>sq_skills = Some [''Figma''], sq_availability = None\<rparr>,
          sr_status = ''completed''\<rparr>,
         \<lparr>sr_id = 12, requesting_user_id = 1,
          query_text = ''Looking for a developer'',
          sr_structured_query = \<lparr>sq_skills = Some [''React'', ''Agile''], sq_availability = None\<rparr>,
          sr_status = ''active''\<rparr>],
      agent_responses = [],
      agent_messages = []\<rparr>"

text \<open>The evaluation of the workflow's step 4, and one that is no match.\<close>

definition full_match :: match_evaluation where
  "full_match =
     \<lparr>ev_is_match = Some True, ev_match_score = Some 1,
      ev_explanation = Some ''Matched 2 of 2 required skills'',
      ev_matched_skills = Some [''UI/UX Design'', ''Figma'']\<rparr>"

definition no_match :: match_evaluation where
  "no_match =
     \<lparr>ev_is_match = Some False, ev_match_score = Some 0,
      ev_explanation = Some ''No matching skills found'',
      ev_matched_skills = Some []\<rparr>"

text \<open>Request 10 answered by Alice (a match) and by Carol (no match).\<close>

definition alice_response :: agent_response where
  "alice_response =
     \<lparr>ar_id = 100, ar_request_id = 10, ar_responding_user_id = 1,
      ar_is_match = Some True, ar_match_score = Some 1,
      ar_match_explanation = Some ''Matched 2 of 2 required skills'',
      ar_matched_skills = Some [''UI/UX Design'', ''Figma'']\<rparr>"

definition carol_response :: agent_response where
  "carol_response =
     \<lparr>ar_id = 101, ar_request_id = 10, ar_responding_user_id = 3,
      ar_is_match = Some False, ar_match_score = Some 0,
      ar_match_explanation = Some ''No matching skills found'',
      ar_matched_skills = Some []\<rparr>"

definition answered_db :: db where
  "answered_db = sample_db\<lparr>agent_responses := [alice_response, carol_response]\<rparr>"

definition alice_ranked :: ranked_match where
  "alice_ranked =
     \<lparr>rm_user_id = 1, rm_name = ''Alice Designer'', rm_title = Some ''Senior UX Designer'',
      rm_match_score = Some 1, rm_matched_skills = Some [''UI/UX Design'', ''Figma''],
      rm_explanation = Some ''Matched 2 of 2 required skills'',
      rm_trust_score = 0.9, rm_final_score = Some 0.97\<rparr>"

text \<open>
  A store with a tie: both of Bob's connections carry the column's default trust 1.0,
  and Alice and Carol both answer request 10 with match score 0.5.
\<close>

definition tie_db :: db where
  "tie_db =
     sample_db
       \<lparr>connections :=
          [\<lparr>user_a_id = 1, user_b_id = 2, trust_score = Some 1\<rparr>,
           \<lparr>user_a_id = 2, user_b_id = 3, trust_score = Some 1\<rparr>],
        agent_responses :=
          [\<lparr>ar_id = 100, ar_request_id = 10, ar_responding_user_id = 1,
            ar_is_match = Some True, ar_match_score = Some 0.5,
            ar_match_explanation = Some ''Matched 1 of 2 required skills'',
            ar_matched_skills = Some [''Figma'']\<rparr>,
           \<lparr>ar_id = 101, ar_request_id = 10, ar_responding_user_id = 3,
            ar_is_match = Some True, ar_match_score = Some 0.5,
            ar_match_explanation = Some ''Matched 1 of 2 required skills'',
            ar_matched_skills = Some [''UI/UX Design'']\<rparr>]\<rparr>"

definition alice_tied :: ranked_match where
  "alice_tied =
     \<lparr>rm_user_id = 1, rm_name = ''Alice Designer'', rm_title = Some ''Senior UX Designer'',
      rm_match_score = Some 0.5, rm_matched_skills = Some [''Figma''],
      rm_explanation = Some ''Matched 1 of 2 required skills'',
      rm_trust_score = 1, rm_final_score = Some 0.65\<rparr>"

definition carol_tied :: ranked_match where
  "carol_tied =
     \<lparr>rm_user_id = 3, rm_name = ''Carol Product Manager'', rm_title = Some ''Product Manager'',
      rm_match_score = Some 0.5, rm_matched_skills = Some [''UI/UX Design''],
      rm_explanation = Some ''Matched 1 of 2 required skills'',
      rm_trust_score = 1, rm_final_score = Some 0.65\<rparr>"

text \<open>
  The specification's ranking example: requester Alice with connections to Bob (trust
  0.9) and Carol (trust 0.95); on request 12 Bob's match score is 0.5 and Carol's 0.2.
\<close>

definition ranked_db :: db where
  "ranked_db =
     sample_db
       \<lparr>agent_responses :=
          [\<lparr>ar_id = 102, ar_request_id = 12, ar_responding_user_id = 2,
            ar_is_match = Some True, ar_match_score = Some 0.5,
            ar_match_explanation = Some ''Matched 1 of 2 required skills'',
            ar_matched_skills = Some [''React'']\<rparr>,
           \<lparr>ar_id = 103, ar_request_id = 12, ar_responding_user_id = 3,
            ar_is_match = Some True, ar_match_score = Some 0.2,
            ar_match_explanation = Some ''Matched 1 of 5 required skills'',
            ar_matched_skills = Some [''Agile'']\<rparr>]\<rparr>"

definition bob_ranked :: ranked_match where
  "bob_ranked =
     \<lparr>rm_user_id = 2, rm_name = ''Bob Developer'', rm_title = Some ''Full-Stack Developer'',
      rm_match_score = Some 0.5, rm_matched_skills = Some [''React''],
      rm_explanation = Some ''Matched 1 of 2 required skills'',
      rm_trust_score = 0.9, rm_final_score = Some 0.62\<rparr>"

definition carol_ranked :: ranked_match where
  "carol_ranked =
     \<lparr>rm_user_id = 3, rm_name = ''Carol Product Manager'', rm_title = Some ''Product Manager'',
      rm_match_score = Some 0.2, rm_matched_skills = Some [''Agile''],
      rm_explanation = Some ''Matched 1 of 5 required skills'',
      rm_trust_score = 0.95, rm_final_score = Some 0.425\<rparr>"

text \<open>
  A store whose final scores are equal as real numbers and differ in double precision:
  Alice with match score 0.5 and trust 0.9, Carol with 0.8 and 0.2. Both sums are 0.62;
  in double precision Alice's is 0.62 and Carol's 0.6199999999999999.
\<close>

definition rounding_db :: db where
  "rounding_db =
     sample_db
       \<lparr>connections :=
          [\<lparr>user_a_id = 1, user_b_id = 2, trust_score = Some 0.9\<rparr>,
           \<lparr>user_a_id = 2, user_b_id = 3, trust_score = Some 0.2\<rparr>],
        agent_responses :=
          [\<lparr>ar_id = 100, ar_request_id = 10, ar_responding_user_id = 3,
            ar_is_match = Some True, ar_match_score = Some 0.8,
            ar_match_explanation = None, ar_matched_skills = None\<rparr>,
           \<lparr>ar_id = 101, ar_request_id = 10, ar_responding_user_id = 1,
            ar_is_match = Some True, ar_match_score = Some 0.5,
            ar_match_explanation = None, ar_matched_skills = None\<rparr>]\<rparr>"

definition alice_rounded :: ranked_match where
  "alice_rounded =
     \<lparr>rm_user_id = 1, rm_name = ''Alice Designer'', rm_title = Some ''Senior UX Designer'',
      rm_match_score = Some 0.5, rm_matched_skills = None, rm_explanation = None,
      rm_trust_score = 0.9, rm_final_score = Some 0.62\<rparr>"

definition carol_rounded :: ranked_match where
  "carol_rounded =
     \<lparr>rm_user_id = 3, rm_name = ''Carol Product Manager'', rm_title = Some ''Product Manager'',
      rm_match_score = Some 0.8, rm_matched_skills = None, rm_explanation = None,
      rm_trust_score = 0.2, rm_final_score = Some 0.62\<rparr>"

text \<open>The sample store after Alice's response to request 10 has been recorded.\<close>

definition recorded_db :: db where
  "recorded_db =
     sample_db
       \<lparr>agent_responses := [alice_response],
        agent_messages :=
          [\<lparr>from_user_id = 1, to_user_id = Some 2, message_type = ''response'',
            msg_payload = Response_payload 100 (Some True), msg_request_id = Some 10\<rparr>]\<rparr>"

section \<open>Unfolding the definitions\<close>

lemmas example_defs = sample_db_def answered_db_def tie_db_def ranked_db_def rounding_db_def
  alice_response_def carol_response_def alice_ranked_def alice_tied_def carol_tied_def
  bob_ranked_def carol_ranked_def alice_rounded_def carol_rounded_def full_match_def
  no_match_def

lemmas builtin_defs = jsonb_array_elements_text_def jsonb_array_length_def sql_agg_def
  greatest_1_def unnest_def array_length_def coalesce_def format_s_def left_join_def
  digit_char_def

lemmas float8_defs = round_half_even_def binade_def binade_down.simps binade_up.simps
  float8_def to_float8_def float8_mul_def float8_pl_def sql_bind_def float8_times_def
  final_score_float8_def order_key_def sort_key_def

lemmas function_defs = request_data_skills_def profile_data_skills_def evaluate_match_def
  user_exists_def request_exists_def message_fk_ok_def insert_agent_messages_def
  response_key_def insert_agent_response_def connected_users_def broadcast_request_def
  record_agent_response_def connects_def connection_on_def c_trust_score_def
  ranked_object_def ranked_rows_def ordered_desc_def get_ranked_results_def

section \<open>The evaluator\<close>

lemma greatest_1_length:
  "greatest_1 (jsonb_array_length j) = max (length (case j of None \<Rightarrow> [] | Some xs \<Rightarrow> xs)) 1"
  by (cases j) (simp_all add: greatest_1_def jsonb_array_length_def)

text \<open>
  What \<open>evaluate_match\<close> returns, both branches at once. It raises exactly when the
  candidate's profile row has NULL for its skills. Otherwise the matched skills are the
  entries of the profile's list that occur among the required skills, in the profile's
  order, and the score is their number over the length of the required list or 1.
\<close>

lemma evaluate_match_result:
  fixes d r c
  defines "req \<equiv> required_skills d r"
    and "ms \<equiv> filter (\<lambda>s. s \<in> set (required_skills d r)) (profile_skills d c)"
  shows "evaluate_match d r c =
     (if profile_data_skills d c = Some Json_null then Inl invalid_parameter_value
      else Inr \<lparr>is_match = (real (length ms) / real (max (length req) 1) \<ge> 0.3),
                match_score = real (length ms) / real (max (length req) 1),
                matched_skills = ms,
                explanation =
                  (if ms = [] then ''No matching skills found''
                   else ''Matched '' @ text_of_nat (length ms) @ '' of ''
                     @ text_of_nat (length req) @ '' required skills'')\<rparr>)"
proof (cases "profile_data_skills d c")
  case None
  then show ?thesis
    by (cases "request_data_skills d r")
      (simp_all add: evaluate_match_def ms_def profile_skills_def jsonb_array_elements_text_def
        sql_agg_def Let_def)
next
  case (Some j)
  show ?thesis
  proof (cases j)
    case Json_null
    with Some show ?thesis
      by (simp add: evaluate_match_def jsonb_array_elements_text_def)
  next
    case (Json_array prof)
    show ?thesis
    proof (cases "request_data_skills d r")
      case None
      with Some Json_array show ?thesis
        by (simp add: evaluate_match_def ms_def req_def profile_skills_def required_skills_def
            jsonb_array_elements_text_def sql_agg_def)
    next
      case (Some required)
      with \<open>profile_data_skills d c = Some j\<close> Json_array show ?thesis
        by (simp add: evaluate_match_def ms_def req_def profile_skills_def required_skills_def
            jsonb_array_elements_text_def sql_agg_def Let_def greatest_1_def
            jsonb_array_length_def format_s_def)
    qed
  qed
qed

lemma evaluate_match_returns:
  assumes "evaluate_match d r c = Inr res"
  shows "profile_data_skills d c \<noteq> Some Json_null"
    and "matched_skills res = filter (\<lambda>s. s \<in> set (required_skills d r)) (profile_skills d c)"
    and "match_score res =
           real (length (filter (\<lambda>s. s \<in> set (required_skills d r)) (profile_skills d c)))
             / real (max (length (required_skills d r)) 1)"
    and "is_match res = (match_score res \<ge> 0.3)"
    and "explanation res =
           (if matched_skills res = [] then ''No matching skills found''
            else ''Matched '' @ text_of_nat (length (matched_skills res)) @ '' of ''
              @ text_of_nat (length (required_skills d r)) @ '' required skills'')"
  using assms unfolding evaluate_match_result[of d r c]
  by (auto split: if_splits)

lemma evaluate_match_raises:
  assumes "evaluate_match d r c = Inl e"
  shows "e = invalid_parameter_value" and "profile_data_skills d c = Some Json_null"
  using assms unfolding evaluate_match_result[of d r c]
  by (auto split: if_splits)

lemma length_filter_inter:
  assumes "distinct prof"
  shows "length (filter (\<lambda>s. s \<in> set req) prof) = card (set req \<inter> set prof)"
proof -
  have "distinct (filter (\<lambda>s. s \<in> set req) prof)" using assms by simp
  then have "length (filter (\<lambda>s. s \<in> set req) prof) = card (set (filter (\<lambda>s. s \<in> set req) prof))"
    by (rule distinct_card[symmetric])
  also have "set (filter (\<lambda>s. s \<in> set req) prof) = set req \<inter> set prof" by auto
  finally show ?thesis .
qed

lemma length_filter_count:
  "length (filter (\<lambda>s. s \<in> set req) prof) = (\<Sum>s\<in>set req. count_list prof s)"
proof (induction prof)
  case Nil
  then show ?case by simp
next
  case (Cons x xs)
  have "count_list (x # xs) s = count_list xs s + (if x = s then 1 else 0)" for s
    by simp
  then have "(\<Sum>s\<in>set req. count_list (x # xs) s)
      = (\<Sum>s\<in>set req. count_list xs s) + (\<Sum>s\<in>set req. if x = s then 1 else 0)"
    by (simp only: sum.distrib)
  also have "(\<Sum>s\<in>set req. if x = s then 1 else 0) = (if x \<in> set req then 1 else (0::nat))"
    by (simp add: sum.delta')
  finally show ?case using Cons by simp
qed

text \<open>
  On lists that repeat no entry the evaluator agrees with the specification's sets: the
  matched skills are the intersection, each once, and the score is the size of the
  intersection over the size of the required set or 1.
\<close>

lemma evaluate_match_on_sets:
  assumes "evaluate_match d r c = Inr res"
    and "distinct (required_skills d r)" and "distinct (profile_skills d c)"
  shows "set (matched_skills res) = set (required_skills d r) \<inter> set (profile_skills d c)"
    and "distinct (matched_skills res)"
    and "match_score res = spec_score (required_skills d r) (profile_skills d c)"
    and "is_match res = (spec_score (required_skills d r) (profile_skills d c) \<ge> 0.3)"
proof -
  note ret = evaluate_match_returns[OF assms(1)]
  show "set (matched_skills res) = set (required_skills d r) \<inter> set (profile_skills d c)"
    unfolding ret(2) by auto
  show "distinct (matched_skills res)"
    unfolding ret(2) using assms(3) by simp
  show s: "match_score res = spec_score (required_skills d r) (profile_skills d c)"
    unfolding ret(3) spec_score_def
    using length_filter_inter[OF assms(3), of "required_skills d r"] distinct_card[OF assms(2)]
    by simp
  show "is_match res = (spec_score (required_skills d r) (profile_skills d c) \<ge> 0.3)"
    using ret(4) s by simp
qed

text \<open>
  Claim C1 at a profile that lists a skill twice: request 11 requires ''Figma'', Dave's
  profile lists it twice. Both occurrences are returned as matched and the score is 2,
  where the size of the intersection over the size of the required set is 1, and where
  the schema says of \<open>match_score\<close> that it lies between 0.0 and 1.0.
\<close>

theorem evaluate_match_duplicates:
  "evaluate_match sample_db 11 4 =
     Inr \<lparr>is_match = True, match_score = 2, matched_skills = [''Figma'', ''Figma''],
          explanation = ''Matched 2 of 1 required skills''\<rparr>
   \<and> required_skills sample_db 11 = [''Figma'']
   \<and> profile_skills sample_db 4 = [''Figma'', ''Figma'']
   \<and> spec_score (required_skills sample_db 11) (profile_skills sample_db 4) = 1"
  by (simp add: sample_db_def builtin_defs function_defs spec_score_def required_skills_def
      profile_skills_def text_of_nat.simps)

text \<open>
  Claim C9, as amended. \<open>evaluate_match\<close> raises when, and only when, the candidate's
  profile has NULL for its skills. Whenever it returns, the explanation is a fixed
  template of the two counts: when at least one entry matched it is ``Matched N of M
  required skills'' with no full stop at the end, N the number of matched entries and M
  the number of entries of the required list, both in decimal; when nothing matched it
  is ``No matching skills found''.
\<close>

theorem explanation_template:
  "case evaluate_match d r c of
     Inl e \<Rightarrow> e = invalid_parameter_value \<and> profile_data_skills d c = Some Json_null
   | Inr res \<Rightarrow>
       profile_data_skills d c \<noteq> Some Json_null
       \<and> explanation res =
           (if matched_skills res = [] then ''No matching skills found''
            else ''Matched '' @ text_of_nat (length (matched_skills res)) @ '' of ''
              @ text_of_nat (length (required_skills d r)) @ '' required skills'')"
proof (cases "evaluate_match d r c")
  case (Inl e)
  with evaluate_match_raises[OF Inl] show ?thesis by simp
next
  case (Inr res)
  with evaluate_match_returns(1,5)[OF Inr] show ?thesis by simp
qed

text \<open>Two of two for Alice on request 10, none for Bob, and an error for Eve.\<close>

lemma evaluate_match_alice:
  "evaluate_match sample_db 10 1 =
     Inr \<lparr>is_match = True, match_score = 1, matched_skills = [''UI/UX Design'', ''Figma''],
          explanation = ''Matched 2 of 2 required skills''\<rparr>"
  by (simp add: sample_db_def builtin_defs function_defs text_of_nat.simps)

lemma evaluate_match_bob:
  "evaluate_match sample_db 10 2 =
     Inr \<lparr>is_match = False, match_score = 0, matched_skills = [],
          explanation = ''No matching skills found''\<rparr>"
  by (simp add: sample_db_def builtin_defs function_defs)

lemma evaluate_match_eve: "evaluate_match sample_db 10 5 = Inl invalid_parameter_value"
  by (simp add: sample_db_def builtin_defs function_defs)

theorem explanation_template_witness:
  "evaluate_match sample_db 10 1 =
     Inr \<lparr>is_match = True, match_score = 1, matched_skills = [''UI/UX Design'', ''Figma''],
          explanation = ''Matched 2 of 2 required skills''\<rparr>
   \<and> profile_data_skills sample_db 1 \<noteq> Some Json_null
   \<and> evaluate_match sample_db 10 2 =
     Inr \<lparr>is_match = False, match_score = 0, matched_skills = [],
          explanation = ''No matching skills found''\<rparr>
   \<and> evaluate_match sample_db 10 5 = Inl invalid_parameter_value
   \<and> profile_data_skills sample_db 5 = Some Json_null"
proof -
  from explanation_template[where d = sample_db and r = 10 and c = 1]
  have a: "profile_data_skills sample_db 1 \<noteq> Some Json_null"
    unfolding evaluate_match_alice by simp
  from explanation_template[where d = sample_db and r = 10 and c = 5]
  have e: "profile_data_skills sample_db 5 = Some Json_null"
    unfolding evaluate_match_eve by simp
  from a e show ?thesis
    using evaluate_match_alice evaluate_match_bob evaluate_match_eve by simp
qed

text \<open>
  The template of the claim, with its full stop, is the explanation in neither case:
  not for Alice's two matches of two, and not for Bob's none of two.
\<close>

theorem explanation_counterexample:
  "map_sum id explanation (evaluate_match sample_db 10 1) = Inr ''Matched 2 of 2 required skills''
   \<and> map_sum id explanation (evaluate_match sample_db 10 1) \<noteq> Inr ''Matched 2 of 2 required skills.''
   \<and> map_sum id explanation (evaluate_match sample_db 10 2) = Inr ''No matching skills found''
   \<and> map_sum id explanation (evaluate_match sample_db 10 2) \<noteq> Inr ''Matched 0 of 2 required skills.''"
  unfolding evaluate_match_alice evaluate_match_bob by simp

text \<open>
  Claim C10. \<open>evaluate_match\<close> raises when, and only when, the candidate's profile has
  NULL for its skills. Whenever it returns, the score counts, for each required skill,
  its occurrences in the profile's list, over the length of the required list (at least
  1). It is never negative, and it is at most 1 when the profile's list repeats no
  entry. When the required list repeats no entry, all of it occurs in the profile and
  one required skill occurs there twice or more, the score exceeds 1.
\<close>

theorem match_score_counts_occurrences:
  "case evaluate_match d r c of
     Inl e \<Rightarrow> e = invalid_parameter_value \<and> profile_data_skills d c = Some Json_null
   | Inr res \<Rightarrow>
       profile_data_skills d c \<noteq> Some Json_null
       \<and> match_score res
           = real (\<Sum>s\<in>set (required_skills d r). count_list (profile_skills d c) s)
               / real (max (length (required_skills d r)) 1)
       \<and> 0 \<le> match_score res
       \<and> (distinct (profile_skills d c) \<longrightarrow> match_score res \<le> 1)
       \<and> (distinct (required_skills d r)
            \<and> set (required_skills d r) \<subseteq> set (profile_skills d c)
            \<and> (\<exists>s\<in>set (required_skills d r). 2 \<le> count_list (profile_skills d c) s)
           \<longrightarrow> 1 < match_score res)"
proof (cases "evaluate_match d r c")
  case (Inl e)
  with evaluate_match_raises[OF Inl] show ?thesis by simp
next
  case (Inr res)
  define req where "req = required_skills d r"
  define prof where "prof = profile_skills d c"
  let ?n = "length (filter (\<lambda>s. s \<in> set req) prof)"
  note ret = evaluate_match_returns[OF Inr]
  have sc: "match_score res = real ?n / real (max (length req) 1)"
    unfolding req_def prof_def by (rule ret(3))
  have cnt: "?n = (\<Sum>s\<in>set req. count_list prof s)"
    by (rule length_filter_count)
  have le: "match_score res \<le> 1" if "distinct prof"
  proof -
    have "?n = card (set req \<inter> set prof)"
      by (rule length_filter_inter[OF that])
    also have "\<dots> \<le> card (set req)" by (simp add: card_mono)
    also have "\<dots> \<le> length req" by (rule card_length)
    also have "\<dots> \<le> max (length req) 1" by simp
    finally show ?thesis unfolding sc by (simp add: divide_le_eq_1)
  qed
  have gt: "1 < match_score res"
    if dr: "distinct req" and sub: "set req \<subseteq> set prof"
      and two: "\<exists>s\<in>set req. 2 \<le> count_list prof s"
  proof -
    from two have ne: "req \<noteq> []" by auto
    have "(\<Sum>s\<in>set req. 1) < (\<Sum>s\<in>set req. count_list prof s)"
    proof (rule sum_strict_mono_ex1)
      show "finite (set req)" by simp
      show "\<forall>s\<in>set req. 1 \<le> count_list prof s"
      proof
        fix s assume "s \<in> set req"
        with sub have "s \<in> set prof" by auto
        then have "count_list prof s \<noteq> 0" by (simp add: count_list_0_iff)
        then show "1 \<le> count_list prof s" by simp
      qed
      from two show "\<exists>s\<in>set req. 1 < count_list prof s" by force
    qed
    then have "length req < ?n" using dr by (simp add: cnt distinct_card)
    then have lt: "real (length req) < real ?n" by simp
    from ne have mx: "max (length req) 1 = length req" by (cases req) simp_all
    from ne have "0 < real (length req)" by simp
    then have "1 < real ?n / real (length req)" using lt by (simp add: less_divide_eq_1_pos)
    then show ?thesis unfolding sc mx .
  qed
  have eq: "match_score res = real (\<Sum>s\<in>set req. count_list prof s) / real (max (length req) 1)"
    unfolding sc cnt ..
  have nonneg: "0 \<le> match_score res"
    unfolding sc by (rule divide_nonneg_nonneg) simp_all
  from eq nonneg le gt ret(1) have all:
    "profile_data_skills d c \<noteq> Some Json_null
       \<and> match_score res = real (\<Sum>s\<in>set req. count_list prof s) / real (max (length req) 1)
       \<and> 0 \<le> match_score res
       \<and> (distinct prof \<longrightarrow> match_score res \<le> 1)
       \<and> (distinct req \<and> set req \<subseteq> set prof \<and> (\<exists>s\<in>set req. 2 \<le> count_list prof s)
           \<longrightarrow> 1 < match_score res)"
    by blast
  show ?thesis unfolding Inr sum.case by (rule all[unfolded req_def prof_def])
qed

text \<open>Alice's profile repeats nothing; Dave's lists ''Figma'' twice for request 11.\<close>

lemma evaluate_match_dave:
  "evaluate_match sample_db 11 4 =
     Inr \<lparr>is_match = True, match_score = 2, matched_skills = [''Figma'', ''Figma''],
          explanation = ''Matched 2 of 1 required skills''\<rparr>"
  by (simp add: sample_db_def builtin_defs function_defs text_of_nat.simps)

theorem match_score_counts_occurrences_witness:
  "distinct (profile_skills sample_db 1)
   \<and> map_sum id match_score (evaluate_match sample_db 10 1) = Inr 1
   \<and> count_list (profile_skills sample_db 4) ''Figma'' = 2
   \<and> map_sum id match_score (evaluate_match sample_db 11 4) = Inr 2
   \<and> evaluate_match sample_db 10 5 = Inl invalid_parameter_value
   \<and> profile_data_skills sample_db 5 = Some Json_null"
proof -
  have p1: "profile_skills sample_db 1
             = [''UI/UX Design'', ''Figma'', ''Design Systems'', ''User Research'']"
    and p4: "profile_skills sample_db 4 = [''Figma'', ''Figma'']"
    by (simp_all add: sample_db_def profile_skills_def profile_data_skills_def)
  from match_score_counts_occurrences[where d = sample_db and r = 10 and c = 5]
  have e: "profile_data_skills sample_db 5 = Some Json_null"
    unfolding evaluate_match_eve by simp
  from match_score_counts_occurrences[where d = sample_db and r = 11 and c = 4]
  have d: "count_list (profile_skills sample_db 4) ''Figma'' = 2"
    unfolding evaluate_match_dave p4 by simp
  from match_score_counts_occurrences[where d = sample_db and r = 10 and c = 1]
  have a: "distinct (profile_skills sample_db 1)"
    unfolding evaluate_match_alice p1 by simp
  from a d e show ?thesis
    unfolding evaluate_match_alice evaluate_match_dave evaluate_match_eve by simp
qed

section \<open>The ranker\<close>

text \<open>What a LEFT JOIN returns: a NULL row when nothing joins, else the joined rows.\<close>

lemma left_join_mem:
  "x \<in> set (left_join tbl on) \<longleftrightarrow>
     (x = None \<and> filter on tbl = []) \<or> (\<exists>y. x = Some y \<and> y \<in> set tbl \<and> on y)"
proof (cases "filter on tbl")
  case Nil
  then have "\<And>y. y \<in> set tbl \<Longrightarrow> \<not> on y" by (simp add: filter_empty_conv)
  with Nil show ?thesis by (auto simp: left_join_def)
next
  case (Cons m ms)
  then have "set (left_join tbl on) = Some ` {y \<in> set tbl. on y}"
    by (simp add: left_join_def flip: set_filter)
  moreover from Cons have "filter on tbl \<noteq> []" by simp
  ultimately show ?thesis by auto
qed

lemma ranked_rows_memE:
  assumes "m \<in> set (ranked_rows d r)"
  obtains ar u p sr c where "ar \<in> set (agent_responses d)" and "u \<in> set (users d)"
    and "u_id u = ar_responding_user_id ar"
    and "p \<in> set (left_join (profiles d) (\<lambda>p. p_user_id p = ar_responding_user_id ar))"
    and "sr \<in> set (left_join (service_requests d) (\<lambda>sr. sr_id sr = ar_request_id ar))"
    and "c \<in> set (left_join (connections d) (connection_on sr ar))"
    and "ar_request_id ar = r" and "ar_is_match ar = Some True"
    and "m = ranked_object ar u p c"
  using assms by (auto simp: ranked_rows_def split: if_splits)

lemma ranked_results_set:
  assumes "get_ranked_results d r (Inr (Some out))"
  shows "set out = set (ranked_rows d r)"
  using assms by (auto simp: get_ranked_results_def ordered_desc_def dest: mset_eq_setD)

text \<open>
  Claim C2. Every row of a result of \<open>get_ranked_results\<close> has as final score its
  match score times 0.7 plus its trust score times 0.3 (NULL when the match score is
  NULL). Its trust score is the trust of a connection between the request's requester
  and the candidate, in either direction (1.0 when that trust is NULL), or, when the
  request is missing or no connection joins the two, the default 1.0.
\<close>

theorem ranked_final_score:
  assumes "get_ranked_results d r (Inr (Some out))" and "m \<in> set out"
  shows "rm_final_score m =
           (case rm_match_score m of None \<Rightarrow> None
            | Some s \<Rightarrow> Some (s * 0.7 + rm_trust_score m * 0.3))
       \<and> ((\<exists>sr c. sr \<in> set (service_requests d) \<and> c \<in> set (connections d) \<and> sr_id sr = r
              \<and> connects c (requesting_user_id sr) (rm_user_id m)
              \<and> rm_trust_score m = coalesce (trust_score c) 1)
          \<or> (rm_trust_score m = 1
              \<and> (\<not> request_exists d r
                 \<or> (\<exists>sr. sr \<in> set (service_requests d) \<and> sr_id sr = r
                      \<and> \<not> (\<exists>c. c \<in> set (connections d)
                              \<and> connects c (requesting_user_id sr) (rm_user_id m))))))"
proof -
  from assms have "m \<in> set (ranked_rows d r)" by (simp add: ranked_results_set)
  then obtain ar u p sr c where
    sr: "sr \<in> set (left_join (service_requests d) (\<lambda>sr. sr_id sr = ar_request_id ar))"
    and c: "c \<in> set (left_join (connections d) (connection_on sr ar))"
    and r: "ar_request_id ar = r" and m: "m = ranked_object ar u p c"
    by (rule ranked_rows_memE)
  have f: "rm_final_score m =
           (case rm_match_score m of None \<Rightarrow> None
            | Some s \<Rightarrow> Some (s * 0.7 + rm_trust_score m * 0.3))"
    by (simp add: m ranked_object_def split: option.split)
  have uid: "rm_user_id m = ar_responding_user_id ar" and
    tr: "rm_trust_score m = coalesce (c_trust_score c) 1"
    by (simp_all add: m ranked_object_def)
  show ?thesis
  proof (cases sr)
    case None
    with sr r have "filter (\<lambda>sr. sr_id sr = r) (service_requests d) = []"
      by (simp add: left_join_mem)
    then have nr: "\<not> request_exists d r"
      by (auto simp: request_exists_def filter_empty_conv)
    from None c have "c = None"
      by (simp add: left_join_mem connection_on_def)
    then have "rm_trust_score m = 1"
      by (simp add: tr c_trust_score_def coalesce_def)
    with f nr show ?thesis by simp
  next
    case (Some s)
    with sr r have s: "s \<in> set (service_requests d)" "sr_id s = r"
      by (simp_all add: left_join_mem)
    show ?thesis
    proof (cases c)
      case None
      with c Some have "filter (connection_on (Some s) ar) (connections d) = []"
        by (simp add: left_join_mem)
      then have "\<not> (\<exists>c. c \<in> set (connections d) \<and> connects c (requesting_user_id s) (rm_user_id m))"
        by (simp add: filter_empty_conv connection_on_def uid)
      moreover from None have "rm_trust_score m = 1"
        by (simp add: tr c_trust_score_def coalesce_def)
      ultimately show ?thesis using f s by auto
    next
      case (Some x)
      with c \<open>sr = Some s\<close> have "x \<in> set (connections d)" "connects x (requesting_user_id s) (rm_user_id m)"
        by (simp_all add: left_join_mem connection_on_def uid)
      moreover from Some have "rm_trust_score m = coalesce (trust_score x) 1"
        by (simp add: tr c_trust_score_def)
      ultimately show ?thesis using f s by auto
    qed
  qed
qed

text \<open>
  The specification's example: Bob's final score is 0.5 * 0.7 + 0.9 * 0.3 = 0.62 and
  Carol's 0.425. The sort keys are these sums in double precision, 0.62 and
  0.42499999999999993.
\<close>

lemma ranked_rows_ranked_db: "ranked_rows ranked_db 12 = [bob_ranked, carol_ranked]"
  by (simp add: example_defs builtin_defs function_defs)

lemma order_key_bob_ranked:
  "order_key bob_ranked = Inr (Some (5584463537939415 / 9007199254740992))"
  by (simp add: bob_ranked_def float8_defs Let_def)

lemma order_key_carol_ranked:
  "order_key carol_ranked = Inr (Some (3828059683264921 / 9007199254740992))"
  by (simp add: carol_ranked_def float8_defs Let_def)

lemma ranked_results_ranked_db:
  "get_ranked_results ranked_db 12 (Inr (Some [bob_ranked, carol_ranked]))"
  by (simp add: get_ranked_results_def ordered_desc_def ranked_rows_ranked_db sort_key_def
      order_key_bob_ranked order_key_carol_ranked)

theorem ranked_final_score_witness:
  "get_ranked_results ranked_db 12 (Inr (Some [bob_ranked, carol_ranked]))
   \<and> rm_match_score bob_ranked = Some 0.5
   \<and> rm_trust_score bob_ranked = 0.9
   \<and> rm_final_score bob_ranked = Some 0.62
   \<and> rm_final_score carol_ranked = Some 0.425"
proof -
  have b: "bob_ranked \<in> set [bob_ranked, carol_ranked]"
    and c: "carol_ranked \<in> set [bob_ranked, carol_ranked]"
    by simp_all
  from ranked_final_score[OF ranked_results_ranked_db b]
  have fb: "rm_final_score bob_ranked =
      (case rm_match_score bob_ranked of None \<Rightarrow> None
       | Some s \<Rightarrow> Some (s * 0.7 + rm_trust_score bob_ranked * 0.3))"
    by (rule conjunct1)
  from ranked_final_score[OF ranked_results_ranked_db c]
  have fc: "rm_final_score carol_ranked =
      (case rm_match_score carol_ranked of None \<Rightarrow> None
       | Some s \<Rightarrow> Some (s * 0.7 + rm_trust_score carol_ranked * 0.3))"
    by (rule conjunct1)
  have mb: "rm_match_score bob_ranked = Some 0.5" "rm_trust_score bob_ranked = 0.9"
    and mc: "rm_match_score carol_ranked = Some 0.2" "rm_trust_score carol_ranked = 0.95"
    by (simp_all add: bob_ranked_def carol_ranked_def)
  from fb have "rm_final_score bob_ranked = Some 0.62" unfolding mb by simp
  moreover from fc have "rm_final_score carol_ranked = Some 0.425" unfolding mc by simp
  ultimately show ?thesis using ranked_results_ranked_db mb by simp
qed

text \<open>
  Claim C3. Every row of a result of \<open>get_ranked_results\<close> comes from a stored response
  of its candidate to that request with \<open>is_match\<close> true; and in a store that keeps
  \<open>UNIQUE(request_id, responding_user_id)\<close>, the candidate has no response to the
  request with another value of \<open>is_match\<close>.
\<close>

theorem ranked_only_matches:
  assumes "get_ranked_results d r (Inr (Some out))" and "m \<in> set out"
  shows "(\<exists>ar. ar \<in> set (agent_responses d) \<and> ar_request_id ar = r
            \<and> ar_responding_user_id ar = rm_user_id m \<and> ar_is_match ar = Some True)
       \<and> (unique_responses d \<longrightarrow>
            (\<forall>ar \<in> set (agent_responses d).
               ar_request_id ar = r \<and> ar_responding_user_id ar = rm_user_id m
                 \<longrightarrow> ar_is_match ar = Some True))"
proof -
  from assms have "m \<in> set (ranked_rows d r)" by (simp add: ranked_results_set)
  then obtain ar u p sr c where ar: "ar \<in> set (agent_responses d)" "ar_request_id ar = r"
    "ar_is_match ar = Some True" and m: "m = ranked_object ar u p c"
    by (rule ranked_rows_memE)
  have uid: "rm_user_id m = ar_responding_user_id ar"
    by (simp add: m ranked_object_def)
  have "ar' = ar" if "unique_responses d" and "ar' \<in> set (agent_responses d)"
    and "ar_request_id ar' = r" and "ar_responding_user_id ar' = rm_user_id m" for ar'
  proof -
    from that(1) have "inj_on response_key (set (agent_responses d))"
      by (simp add: unique_responses_def distinct_map)
    moreover have "response_key ar' = response_key ar"
      using that(3,4) ar(2) uid by (simp add: response_key_def)
    ultimately show ?thesis using that(2) ar(1) by (auto dest: inj_onD)
  qed
  with ar uid show ?thesis by auto
qed

text \<open>Request 10 answered by Alice (a match) and Carol (none): only Alice is ranked.\<close>

lemma ranked_rows_answered_db: "ranked_rows answered_db 10 = [alice_ranked]"
  by (simp add: example_defs builtin_defs function_defs)

lemma order_key_alice_ranked:
  "order_key alice_ranked = Inr (Some (4368491638549381 / 4503599627370496))"
  by (simp add: alice_ranked_def float8_defs Let_def)

theorem ranked_only_matches_witness:
  "get_ranked_results answered_db 10 (Inr (Some [alice_ranked]))
   \<and> unique_responses answered_db
   \<and> alice_response \<in> set (agent_responses answered_db)
   \<and> ar_responding_user_id alice_response = rm_user_id alice_ranked
   \<and> ar_is_match alice_response = Some True
   \<and> ar_is_match carol_response = Some False
   \<and> ar_responding_user_id carol_response \<noteq> rm_user_id alice_ranked"
proof -
  have g: "get_ranked_results answered_db 10 (Inr (Some [alice_ranked]))"
    by (simp add: get_ranked_results_def ordered_desc_def ranked_rows_answered_db
        order_key_alice_ranked)
  have m: "alice_ranked \<in> set [alice_ranked]" by simp
  have u: "unique_responses answered_db"
    by (simp add: unique_responses_def response_key_def example_defs)
  have a: "alice_response \<in> set (agent_responses answered_db)"
    and c: "carol_response \<in> set (agent_responses answered_db)"
    by (simp_all add: answered_db_def)
  have ka: "ar_request_id alice_response = 10 \<and> ar_responding_user_id alice_response = rm_user_id alice_ranked"
    by (simp add: alice_response_def alice_ranked_def)
  from ranked_only_matches[OF g m] u a ka
  have "ar_is_match alice_response = Some True" by blast
  moreover have "ar_is_match carol_response = Some False"
    by (simp add: carol_response_def)
  moreover from ranked_only_matches[OF g m] u c calculation(2)
  have "ar_responding_user_id carol_response \<noteq> rm_user_id alice_ranked"
    by (auto simp: carol_response_def)
  ultimately show ?thesis using g u a ka by simp
qed

section \<open>The order of the results\<close>

lemma desc_before_antisym: "desc_before a b \<Longrightarrow> desc_before b a \<Longrightarrow> a = b"
  by (cases a; cases b) auto

text \<open>Two descending arrangements of the same rows are equal when no two keys are.\<close>

lemma ordered_unique:
  assumes "mset xs = mset ys"
    and "sorted_wrt (\<lambda>a b. desc_before (k a) (k b)) xs"
    and "sorted_wrt (\<lambda>a b. desc_before (k a) (k b)) ys"
    and "distinct (map k xs)"
  shows "xs = ys"
  using assms
proof (induction xs arbitrary: ys)
  case Nil
  then show ?case by simp
next
  case (Cons x xs)
  from Cons.prems(1) obtain y ys' where ys: "ys = y # ys'"
    by (cases ys) auto
  have xy: "x = y"
  proof (rule ccontr)
    assume ne: "x \<noteq> y"
    have "x \<in> set ys" using Cons.prems(1) by (metis list.set_intros(1) mset_eq_setD)
    with ne ys have "x \<in> set ys'" by simp
    with Cons.prems(3) ys have a: "desc_before (k y) (k x)" by simp
    have "y \<in> set (x # xs)" using Cons.prems(1) ys by (metis list.set_intros(1) mset_eq_setD)
    with ne have yx: "y \<in> set xs" by simp
    with Cons.prems(2) have b: "desc_before (k x) (k y)" by simp
    from a b have "k x = k y" by (simp add: desc_before_antisym)
    with yx Cons.prems(4) show False by force
  qed
  with Cons.prems ys have "xs = ys'"
    by (intro Cons.IH) simp_all
  with xy ys show ?case by simp
qed

text \<open>On rows whose expression raises no error, the sort key is the double it gives.\<close>

lemma order_key_sort_key:
  assumes "\<not> isl (order_key m)"
  shows "order_key m = Inr (sort_key m)"
  using assms by (cases "order_key m") (simp_all add: sort_key_def)

lemma distinct_sort_keys:
  assumes "list_all (\<lambda>m. \<not> isl (order_key m)) rows" and "distinct (map order_key rows)"
  shows "distinct (map sort_key rows)"
proof -
  have "inj_on sort_key (set rows)"
  proof (rule inj_onI)
    fix a b assume a: "a \<in> set rows" and b: "b \<in> set rows" and eq: "sort_key a = sort_key b"
    from assms(1) a b have "order_key a = Inr (sort_key a)" "order_key b = Inr (sort_key b)"
      by (simp_all add: list_all_iff order_key_sort_key)
    with eq have "order_key a = order_key b" by simp
    with assms(2) a b show "a = b" by (simp add: distinct_map inj_on_def)
  qed
  moreover from assms(2) have "distinct rows" by (simp add: distinct_map)
  ultimately show ?thesis by (simp add: distinct_map)
qed

text \<open>
  Claim C6, as amended. A result of \<open>get_ranked_results\<close> is an arrangement of the selected
  rows that descends by the final score as computed in double precision (NULLs first);
  the query has no second sort key. When no two of the selected rows have the same such
  score, the result is determined: two invocations that return on the same store return
  the same sequence (or both NULL).
\<close>

theorem ranked_results_order:
  "(get_ranked_results d r (Inr (Some out)) \<longrightarrow>
      mset out = mset (ranked_rows d r)
      \<and> sorted_wrt (\<lambda>a b. desc_before (sort_key a) (sort_key b)) out)
   \<and> (get_ranked_results d r (Inr resa) \<and> get_ranked_results d r (Inr resb)
        \<and> distinct (map order_key (ranked_rows d r))
      \<longrightarrow> resa = resb)"
proof (intro conjI impI)
  assume "get_ranked_results d r (Inr (Some out))"
  then show "mset out = mset (ranked_rows d r)"
    and "sorted_wrt (\<lambda>a b. desc_before (sort_key a) (sort_key b)) out"
    by (simp_all add: get_ranked_results_def ordered_desc_def)
next
  assume a: "get_ranked_results d r (Inr resa) \<and> get_ranked_results d r (Inr resb)
        \<and> distinct (map order_key (ranked_rows d r))"
  show "resa = resb"
  proof (cases resa)
    case None
    with a show ?thesis by (cases resb) (auto simp: get_ranked_results_def)
  next
    case (Some out1)
    with a have o1: "ordered_desc (ranked_rows d r) out1" and ne: "ranked_rows d r \<noteq> []"
      and ok: "list_all (\<lambda>m. \<not> isl (order_key m)) (ranked_rows d r)"
      by (simp_all add: get_ranked_results_def)
    from ne a obtain out2 where r2: "resb = Some out2"
      by (cases resb) (simp_all add: get_ranked_results_def)
    with a have o2: "ordered_desc (ranked_rows d r) out2"
      by (simp add: get_ranked_results_def)
    from a ok have "distinct (map sort_key (ranked_rows d r))"
      by (simp add: distinct_sort_keys)
    moreover from o1 have "mset (map sort_key out1) = mset (map sort_key (ranked_rows d r))"
      by (simp add: ordered_desc_def)
    ultimately have "distinct (map sort_key out1)"
      by (metis mset_eq_imp_distinct_iff)
    with o1 o2 have "out1 = out2"
      by (intro ordered_unique[where k = sort_key]) (simp_all add: ordered_desc_def)
    with Some r2 show ?thesis by simp
  qed
qed

text \<open>
  In \<open>rounding_db\<close> the two final scores are the same real number, 0.62, and differ in
  double precision: Alice's is 0.62 and Carol's 0.6199999999999999. The keys differ, and
  Alice before Carol is the only result.
\<close>

lemma ranked_rows_rounding_db: "ranked_rows rounding_db 10 = [carol_rounded, alice_rounded]"
  by (simp add: example_defs builtin_defs function_defs)

lemma order_key_alice_rounded:
  "order_key alice_rounded = Inr (Some (5584463537939415 / 9007199254740992))"
  by (simp add: alice_rounded_def float8_defs Let_def)

lemma order_key_carol_rounded:
  "order_key carol_rounded = Inr (Some (5584463537939414 / 9007199254740992))"
  by (simp add: carol_rounded_def float8_defs Let_def)

lemma ranked_results_rounding_db:
  "get_ranked_results rounding_db 10 (Inr (Some [alice_rounded, carol_rounded]))"
  by (simp add: get_ranked_results_def ordered_desc_def ranked_rows_rounding_db sort_key_def
      order_key_alice_rounded order_key_carol_rounded)

theorem ranked_results_order_witness:
  "get_ranked_results rounding_db 10 (Inr (Some [alice_rounded, carol_rounded]))
   \<and> rm_final_score alice_rounded = rm_final_score carol_rounded
   \<and> distinct (map order_key (ranked_rows rounding_db 10))
   \<and> sorted_wrt (\<lambda>a b. desc_before (sort_key a) (sort_key b)) [alice_rounded, carol_rounded]
   \<and> \<not> get_ranked_results rounding_db 10 (Inr (Some [carol_rounded, alice_rounded]))
   \<and> \<not> get_ranked_results rounding_db 10 (Inr None)"
proof -
  note g = ranked_results_rounding_db
  have d: "distinct (map order_key (ranked_rows rounding_db 10))"
    by (simp add: ranked_rows_rounding_db order_key_alice_rounded order_key_carol_rounded)
  have f: "rm_final_score alice_rounded = rm_final_score carol_rounded"
    by (simp add: alice_rounded_def carol_rounded_def)
  have ne: "[carol_rounded, alice_rounded] \<noteq> [alice_rounded, carol_rounded]"
    by (simp add: alice_rounded_def carol_rounded_def)
  from ranked_results_order[where d = rounding_db and r = 10
      and out = "[alice_rounded, carol_rounded]"] g
  have s: "sorted_wrt (\<lambda>a b. desc_before (sort_key a) (sort_key b)) [alice_rounded, carol_rounded]"
    by blast
  have "\<not> get_ranked_results rounding_db 10 (Inr (Some [carol_rounded, alice_rounded]))"
  proof
    assume "get_ranked_results rounding_db 10 (Inr (Some [carol_rounded, alice_rounded]))"
    with ranked_results_order[where d = rounding_db and r = 10
        and resa = "Some [carol_rounded, alice_rounded]"
        and resb = "Some [alice_rounded, carol_rounded]"] g d
    have "Some [carol_rounded, alice_rounded] = Some [alice_rounded, carol_rounded]"
      by blast
    then have "[carol_rounded, alice_rounded] = [alice_rounded, carol_rounded]"
      by (rule option.inject[THEN iffD1])
    with ne show False by blast
  qed
  moreover have "\<not> get_ranked_results rounding_db 10 (Inr None)"
  proof
    assume "get_ranked_results rounding_db 10 (Inr None)"
    with ranked_results_order[where d = rounding_db and r = 10
        and resa = None and resb = "Some [alice_rounded, carol_rounded]"] g d
    have "None = Some [alice_rounded, carol_rounded]"
      by blast
    then show False by (rule option.distinct(1)[THEN notE])
  qed
  ultimately show ?thesis using g f d s by blast
qed

text \<open>
  With a tie the claim fails. In \<open>tie_db\<close> Alice and Carol both have match score 0.5 and
  trust 1.0, so the same final score, 0.65 (in double precision 0.6499999999999999 for
  both): the order Alice, Carol and the order Carol, Alice are both results of the query
  on the same store, and they differ.
\<close>

lemma ranked_rows_tie_db: "ranked_rows tie_db 10 = [alice_tied, carol_tied]"
  by (simp add: example_defs builtin_defs function_defs)

lemma order_key_alice_tied:
  "order_key alice_tied = Inr (Some (1463669878895411 / 2251799813685248))"
  by (simp add: alice_tied_def float8_defs Let_def)

lemma order_key_carol_tied:
  "order_key carol_tied = Inr (Some (1463669878895411 / 2251799813685248))"
  by (simp add: carol_tied_def float8_defs Let_def)

theorem ranked_tie_counterexample:
  "get_ranked_results tie_db 10 (Inr (Some [alice_tied, carol_tied]))
   \<and> get_ranked_results tie_db 10 (Inr (Some [carol_tied, alice_tied]))
   \<and> [alice_tied, carol_tied] \<noteq> [carol_tied, alice_tied]"
  by (simp add: get_ranked_results_def ordered_desc_def ranked_rows_tie_db sort_key_def
      order_key_alice_tied order_key_carol_tied)
    (simp add: alice_tied_def carol_tied_def)

text \<open>With no matching response, in general: no row is selected and NULL is the only outcome.\<close>

lemma ranked_results_no_match:
  assumes "\<And>ar. ar \<in> set (agent_responses d) \<Longrightarrow> ar_request_id ar = r \<Longrightarrow> ar_is_match ar \<noteq> Some True"
  shows "get_ranked_results d r res \<longleftrightarrow> res = Inr None"
proof -
  have "ranked_rows d r = []"
  proof (rule ccontr)
    assume "ranked_rows d r \<noteq> []"
    then obtain m where "m \<in> set (ranked_rows d r)" by (cases "ranked_rows d r") auto
    then obtain ar where "ar \<in> set (agent_responses d)" "ar_request_id ar = r"
      "ar_is_match ar = Some True"
      by (rule ranked_rows_memE)
    with assms show False by blast
  qed
  then show ?thesis
    by (cases res) (auto simp: get_ranked_results_def split: option.splits)
qed

text \<open>
  Claim C8 at a request with no matching response: request 10 of the sample store has
  no response at all. The result of \<open>get_ranked_results\<close> is NULL, and the empty
  sequence is not a result.
\<close>

theorem ranked_no_match_null:
  "get_ranked_results sample_db 10 (Inr None)
   \<and> \<not> get_ranked_results sample_db 10 (Inr (Some []))"
  by (simp add: sample_db_def get_ranked_results_def ranked_rows_def)

section \<open>The response registry\<close>

lemma insert_agent_messages_responses:
  "insert_agent_messages d rows = Inr d' \<Longrightarrow> agent_responses d' = agent_responses d"
  by (auto simp: insert_agent_messages_def split: if_splits)

lemma insert_agent_response_fails_on_key:
  assumes "response_key r \<in> response_key ` set (agent_responses d)"
  shows "insert_agent_response d r =
           Inl (if ar_is_match r = None then not_null_violation else unique_violation)"
  using assms by (simp add: insert_agent_response_def)

lemma insert_agent_response_ok:
  assumes "insert_agent_response d r = Inr d'"
  shows "agent_responses d' = agent_responses d @ [r]"
    and "response_key r \<notin> response_key ` set (agent_responses d)"
    and "request_exists d (ar_request_id r)"
  using assms by (auto simp: insert_agent_response_def split: if_splits)

text \<open>The two outcomes of \<open>record_agent_response\<close>: an error and the store as it was, or
  the new id and a store with exactly one more response, under a key that was free.\<close>

lemma record_agent_response_cases:
  obtains (error) e where "record_agent_response d n r u ev = (Inl e, d)"
  | (ok) d' where "record_agent_response d n r u ev = (Inr n, d')"
      and "agent_responses d' = agent_responses d @
             [\<lparr>ar_id = n, ar_request_id = r, ar_responding_user_id = u,
               ar_is_match = ev_is_match ev, ar_match_score = ev_match_score ev,
               ar_match_explanation = ev_explanation ev,
               ar_matched_skills = ev_matched_skills ev\<rparr>]"
      and "(r, u) \<notin> response_key ` set (agent_responses d)"
      and "request_exists d r"
proof (cases "insert_agent_response d
             \<lparr>ar_id = n, ar_request_id = r, ar_responding_user_id = u,
              ar_is_match = ev_is_match ev, ar_match_score = ev_match_score ev,
              ar_match_explanation = ev_explanation ev,
              ar_matched_skills = ev_matched_skills ev\<rparr>")
  case (Inl e)
  then have "record_agent_response d n r u ev = (Inl e, d)"
    by (simp add: record_agent_response_def)
  then show ?thesis by (rule error)
next
  case (Inr d1)
  note ins = insert_agent_response_ok[OF Inr]
  show ?thesis
  proof (cases "insert_agent_messages d1
                  (map (\<lambda>sr. \<lparr>from_user_id = u,
                               to_user_id = Some (requesting_user_id sr),
                               message_type = ''response'',
                               msg_payload = Response_payload n (ev_is_match ev),
                               msg_request_id = Some r\<rparr>)
                     (filter (\<lambda>sr. sr_id sr = r) (service_requests d1)))")
    case (Inl e)
    with Inr have "record_agent_response d n r u ev = (Inl e, d)"
      by (simp add: record_agent_response_def)
    then show ?thesis by (rule error)
  next
    case (Inr d2)
    have a: "record_agent_response d n r u ev = (Inr n, d2)"
      by (simp add: record_agent_response_def \<open>insert_agent_response d _ = Inr d1\<close> Inr)
    have b: "agent_responses d2 = agent_responses d @
              [\<lparr>ar_id = n, ar_request_id = r, ar_responding_user_id = u,
                ar_is_match = ev_is_match ev, ar_match_score = ev_match_score ev,
                ar_match_explanation = ev_explanation ev,
                ar_matched_skills = ev_matched_skills ev\<rparr>]"
      using insert_agent_messages_responses[OF Inr] ins(1) by simp
    from ins(2) have e: "(r, u) \<notin> response_key ` set (agent_responses d)"
      by (simp add: response_key_def)
    from ins(3) have f: "request_exists d r" by simp
    show ?thesis by (rule ok[OF a b e f])
  qed
qed

lemma broadcast_request_responses:
  "agent_responses (snd (broadcast_request d u r)) = agent_responses d"
  by (simp add: broadcast_request_def Let_def insert_agent_messages_def)

lemma record_agent_response_duplicate:
  assumes "(r, u) \<in> response_key ` set (agent_responses d)"
  shows "record_agent_response d n r u ev =
           (Inl (if ev_is_match ev = None then not_null_violation else unique_violation), d)"
proof -
  let ?row = "\<lparr>ar_id = n, ar_request_id = r, ar_responding_user_id = u,
              ar_is_match = ev_is_match ev, ar_match_score = ev_match_score ev,
              ar_match_explanation = ev_explanation ev,
              ar_matched_skills = ev_matched_skills ev\<rparr>"
  have "response_key ?row = (r, u)" by (simp add: response_key_def)
  with assms have "response_key ?row \<in> response_key ` set (agent_responses d)" by simp
  from insert_agent_response_fails_on_key[OF this] show ?thesis
    by (simp add: record_agent_response_def)
qed

text \<open>
  Claim C4. \<open>record_agent_response\<close> keeps the pairs (request, candidate) of the stored
  responses distinct. After it has recorded a response for a pair, the row it stored is
  the one it was given, and a second attempt for the same pair, whatever the new id and
  the evaluation, fails and returns the store as it was, so the first response stays
  and no message is added. The error is \<open>unique_violation\<close>, the
  duplicate-response failure, whenever the evaluation has an \<open>is_match\<close>; an evaluation
  without one is rejected earlier, by NOT NULL. The same holds for any pair that already
  has a response. \<open>broadcast_request\<close> leaves the responses as they are, and no other
  function writes them.
\<close>

theorem record_agent_response_once:
  "(unique_responses d \<longrightarrow> unique_responses (snd (record_agent_response d n r u ev)))
   \<and> (\<forall>d1. record_agent_response d n r u ev = (Inr n, d1) \<longrightarrow>
         \<lparr>ar_id = n, ar_request_id = r, ar_responding_user_id = u,
           ar_is_match = ev_is_match ev, ar_match_score = ev_match_score ev,
           ar_match_explanation = ev_explanation ev,
           ar_matched_skills = ev_matched_skills ev\<rparr> \<in> set (agent_responses d1)
         \<and> (\<exists>e. record_agent_response d1 n' r u ev' = (Inl e, d1))
         \<and> (ev_is_match ev' \<noteq> None \<longrightarrow>
              record_agent_response d1 n' r u ev' = (Inl unique_violation, d1)))
   \<and> ((r, u) \<in> response_key ` set (agent_responses d) \<longrightarrow>
         (\<exists>e. record_agent_response d n r u ev = (Inl e, d))
         \<and> (ev_is_match ev \<noteq> None \<longrightarrow>
              record_agent_response d n r u ev = (Inl unique_violation, d)))
   \<and> agent_responses (snd (broadcast_request d u' r')) = agent_responses d"
proof (intro conjI impI allI)
  assume uq: "unique_responses d"
  show "unique_responses (snd (record_agent_response d n r u ev))"
  proof (cases rule: record_agent_response_cases[of d n r u ev])
    case (error e)
    with uq show ?thesis by simp
  next
    case (ok d')
    with uq show ?thesis by (simp add: unique_responses_def response_key_def)
  qed
next
  fix d1 assume s: "record_agent_response d n r u ev = (Inr n, d1)"
  let ?row = "\<lparr>ar_id = n, ar_request_id = r, ar_responding_user_id = u,
           ar_is_match = ev_is_match ev, ar_match_score = ev_match_score ev,
           ar_match_explanation = ev_explanation ev,
           ar_matched_skills = ev_matched_skills ev\<rparr>"
  show row: "?row \<in> set (agent_responses d1)"
  proof (cases rule: record_agent_response_cases[of d n r u ev])
    case (error e)
    with s show ?thesis by simp
  next
    case (ok d')
    with s show ?thesis by simp
  qed
  have "response_key ?row = (r, u)" by (simp add: response_key_def)
  with row have k: "(r, u) \<in> response_key ` set (agent_responses d1)"
    by (metis image_eqI)
  from record_agent_response_duplicate[OF k]
  show "\<exists>e. record_agent_response d1 n' r u ev' = (Inl e, d1)" by blast
  assume "ev_is_match ev' \<noteq> None"
  with record_agent_response_duplicate[OF k, of n' ev']
  show "record_agent_response d1 n' r u ev' = (Inl unique_violation, d1)" by simp
next
  assume k: "(r, u) \<in> response_key ` set (agent_responses d)"
  from record_agent_response_duplicate[OF k]
  show "\<exists>e. record_agent_response d n r u ev = (Inl e, d)" by blast
  assume "ev_is_match ev \<noteq> None"
  with record_agent_response_duplicate[OF k, of n ev]
  show "record_agent_response d n r u ev = (Inl unique_violation, d)" by simp
next
  show "agent_responses (snd (broadcast_request d u' r')) = agent_responses d"
    by (rule broadcast_request_responses)
qed

text \<open>
  Alice answers request 10 of the sample store; a second answer of hers, with another
  verdict, is refused and nothing changes.
\<close>

lemma recorded_db_eq:
  "record_agent_response sample_db 100 10 1 full_match = (Inr 100, recorded_db)"
  by (simp add: recorded_db_def example_defs builtin_defs function_defs)

theorem record_agent_response_once_witness:
  "record_agent_response sample_db 100 10 1 full_match = (Inr 100, recorded_db)
   \<and> unique_responses sample_db
   \<and> unique_responses recorded_db
   \<and> agent_responses recorded_db = [alice_response]
   \<and> ev_is_match no_match \<noteq> None
   \<and> record_agent_response recorded_db 101 10 1 no_match = (Inl unique_violation, recorded_db)"
proof -
  note s = recorded_db_eq
  have u: "unique_responses sample_db"
    by (simp add: unique_responses_def sample_db_def)
  have m: "ev_is_match no_match \<noteq> None"
    by (simp add: no_match_def)
  note t = record_agent_response_once[where d = sample_db and n = 100 and r = 10 and u = 1
      and ev = full_match and n' = 101 and ev' = no_match]
  from t u have "unique_responses (snd (record_agent_response sample_db 100 10 1 full_match))"
    by blast
  then have u': "unique_responses recorded_db" unfolding s by simp
  from t s m have f: "record_agent_response recorded_db 101 10 1 no_match = (Inl unique_violation, recorded_db)"
    by blast
  have a: "agent_responses recorded_db = [alice_response]"
    by (simp add: recorded_db_def)
  from s u u' a m f show ?thesis by simp
qed

section \<open>Requests that are missing or not active\<close>

lemma record_agent_response_no_request:
  assumes "\<not> request_exists d r"
  shows "\<exists>e. record_agent_response d n r u ev = (Inl e, d)"
  using assms by (cases rule: record_agent_response_cases[of d n r u ev]) auto

lemma record_agent_response_no_request_fk:
  assumes "\<not> request_exists d r" and "ev_is_match ev \<noteq> None"
    and "n \<notin> ar_id ` set (agent_responses d)"
    and "(r, u) \<notin> response_key ` set (agent_responses d)"
  shows "record_agent_response d n r u ev = (Inl foreign_key_violation, d)"
  using assms by (simp add: record_agent_response_def insert_agent_response_def response_key_def)

lemma broadcast_request_no_request:
  assumes "\<not> request_exists d r" and "connected_users d u \<noteq> None"
  shows "broadcast_request d u r = (Inl foreign_key_violation, d)"
proof -
  from assms(2) have ne: "unnest (connected_users d u) \<noteq> []"
    by (auto simp: unnest_def connected_users_def sql_agg_def split: if_splits)
  have "\<not> list_all (message_fk_ok d)
          (map (\<lambda>v. \<lparr>from_user_id = u, to_user_id = Some v,
                      message_type = ''query_broadcast'',
                      msg_payload = Broadcast_payload r,
                      msg_request_id = Some r\<rparr>)
             (unnest (connected_users d u)))"
    using ne assms(1) by (cases "unnest (connected_users d u)") (simp_all add: message_fk_ok_def)
  then show ?thesis
    by (simp add: broadcast_request_def Let_def insert_agent_messages_def)
qed

text \<open>Rewriting the \<open>status\<close> column changes nothing any function reads.\<close>

lemma with_status_tables:
  "users (with_status f d) = users d"
  "profiles (with_status f d) = profiles d"
  "connections (with_status f d) = connections d"
  "agent_responses (with_status f d) = agent_responses d"
  "agent_messages (with_status f d) = agent_messages d"
  by (simp_all add: with_status_def)

lemma with_status_user_exists: "user_exists (with_status f d) = user_exists d"
  by (simp add: fun_eq_iff user_exists_def with_status_tables)

lemma with_status_request_exists: "request_exists (with_status f d) = request_exists d"
  by (simp add: fun_eq_iff request_exists_def with_status_def image_image)

lemma with_status_connected_users: "connected_users (with_status f d) = connected_users d"
  by (simp add: fun_eq_iff connected_users_def with_status_tables)

lemma with_status_message_fk_ok: "message_fk_ok (with_status f d) = message_fk_ok d"
  by (simp add: fun_eq_iff message_fk_ok_def with_status_user_exists with_status_request_exists
      cong: option.case_cong)

lemmas with_status_simps = with_status_tables with_status_user_exists with_status_request_exists
  with_status_connected_users with_status_message_fk_ok

lemma with_status_insert_messages:
  "insert_agent_messages (with_status f d) rows =
     (case insert_agent_messages d rows of Inl e \<Rightarrow> Inl e | Inr d' \<Rightarrow> Inr (with_status f d'))"
  by (simp add: insert_agent_messages_def with_status_simps) (simp add: with_status_def)

lemma with_status_insert_response:
  "insert_agent_response (with_status f d) row =
     (case insert_agent_response d row of Inl e \<Rightarrow> Inl e | Inr d' \<Rightarrow> Inr (with_status f d'))"
  by (simp add: insert_agent_response_def with_status_simps) (simp add: with_status_def)

lemma with_status_broadcast:
  "broadcast_request (with_status f d) u r =
     (fst (broadcast_request d u r), with_status f (snd (broadcast_request d u r)))"
  by (simp add: broadcast_request_def Let_def with_status_simps with_status_insert_messages
      split: sum.split)

lemma with_status_record:
  "record_agent_response (with_status f d) n r u ev =
     (fst (record_agent_response d n r u ev), with_status f (snd (record_agent_response d n r u ev)))"
proof -
  have rows: "map mk (filter (\<lambda>sr. sr_id sr = r) (service_requests (with_status f d1)))
            = map (\<lambda>sr. mk (sr\<lparr>sr_status := f sr\<rparr>)) (filter (\<lambda>sr. sr_id sr = r) (service_requests d1))"
    for d1 and mk :: "service_request \<Rightarrow> agent_message"
    by (simp add: with_status_def filter_map o_def)
  show ?thesis
    by (simp add: record_agent_response_def with_status_insert_response rows
        with_status_insert_messages split: sum.split)
qed

text \<open>
  Claim C5, as amended. Neither \<open>broadcast_request\<close> nor \<open>record_agent_response\<close> reads
  the status of a request: on a store whose status column is rewritten in any way
  (active, completed, cancelled) each returns the same result and makes the same change.
  What is rejected is a request id that no request has: \<open>record_agent_response\<close> then
  fails and leaves the store as it was (with the foreign-key violation, when the
  evaluation has an \<open>is_match\<close> and neither the new id nor the pair is taken), and
  \<open>broadcast_request\<close> fails with the foreign-key violation and leaves the store as it was
  whenever the requester has at least one connection.
\<close>

theorem missing_request_rejected:
  "(\<not> request_exists d r \<longrightarrow>
       (\<exists>e. record_agent_response d n r u ev = (Inl e, d))
       \<and> (ev_is_match ev \<noteq> None \<and> n \<notin> ar_id ` set (agent_responses d)
            \<and> (r, u) \<notin> response_key ` set (agent_responses d)
           \<longrightarrow> record_agent_response d n r u ev = (Inl foreign_key_violation, d))
       \<and> (connected_users d u \<noteq> None
           \<longrightarrow> broadcast_request d u r = (Inl foreign_key_violation, d)))
   \<and> broadcast_request (with_status f d) u r =
       (fst (broadcast_request d u r), with_status f (snd (broadcast_request d u r)))
   \<and> record_agent_response (with_status f d) n r u ev =
       (fst (record_agent_response d n r u ev),
        with_status f (snd (record_agent_response d n r u ev)))"
  using record_agent_response_no_request[of d r n u ev]
    record_agent_response_no_request_fk[of d r ev n u]
    broadcast_request_no_request[of d r u]
    with_status_broadcast[of f d u r] with_status_record[of f d n r u ev]
  by blast

text \<open>No request of the sample store has id 99; Bob has two connections.\<close>

theorem missing_request_rejected_witness:
  "\<not> request_exists sample_db 99
   \<and> connected_users sample_db 2 = Some [1, 3]
   \<and> record_agent_response sample_db 100 99 1 full_match = (Inl foreign_key_violation, sample_db)
   \<and> broadcast_request sample_db 2 99 = (Inl foreign_key_violation, sample_db)"
proof -
  have a: "\<not> request_exists sample_db 99"
    by (simp add: request_exists_def sample_db_def)
  have b: "connected_users sample_db 2 = Some [1, 3]"
    by (simp add: connected_users_def sql_agg_def sample_db_def)
  have c: "ev_is_match full_match \<noteq> None \<and> 100 \<notin> ar_id ` set (agent_responses sample_db)
            \<and> (99, 1) \<notin> response_key ` set (agent_responses sample_db)"
    by (simp add: full_match_def sample_db_def)
  from missing_request_rejected[where d = sample_db and r = 99 and n = 100 and u = 1
      and ev = full_match and f = sr_status] a c
  have "record_agent_response sample_db 100 99 1 full_match = (Inl foreign_key_violation, sample_db)"
    by blast
  moreover from missing_request_rejected[where d = sample_db and r = 99 and n = 100 and u = 2
      and ev = full_match and f = sr_status] a b
  have "broadcast_request sample_db 2 99 = (Inl foreign_key_violation, sample_db)"
    by (metis option.distinct(1))
  ultimately show ?thesis using a b by simp
qed

text \<open>
  The claim fails on a request that is not active: request 11 of the sample store is
  completed, and both the broadcast of it to Bob's two connections and the recording
  of Alice's response to it succeed. So does a broadcast of a request that does not
  exist (99) by Dave, who has no connection: no row is inserted and no key is checked.
\<close>

theorem inactive_request_counterexample:
  "map sr_status (filter (\<lambda>sr. sr_id sr = 11) (service_requests sample_db)) = [''completed'']
   \<and> fst (broadcast_request sample_db 2 11)
       = Inr \<lparr>broadcast_to = Some 2, br_request_id = 11, br_status = ''sent''\<rparr>
   \<and> fst (record_agent_response sample_db 100 11 1 full_match) = Inr 100
   \<and> \<not> request_exists sample_db 99
   \<and> fst (broadcast_request sample_db 4 99)
       = Inr \<lparr>broadcast_to = None, br_request_id = 99, br_status = ''sent''\<rparr>"
  by (simp add: example_defs builtin_defs function_defs)

text \<open>A requester with no connection, in general: success, NULL as the count, no message.\<close>

lemma broadcast_request_no_connections:
  assumes "filter (\<lambda>c. user_a_id c = u \<or> user_b_id c = u) (connections d) = []"
  shows "broadcast_request d u r
     = (Inr \<lparr>broadcast_to = None, br_request_id = r, br_status = ''sent''\<rparr>, d)"
  using assms
  by (simp add: broadcast_request_def connected_users_def sql_agg_def unnest_def
      array_length_def insert_agent_messages_def)

text \<open>
  Claim C7 at a requester with no connection: Dave (4) in the sample store. The
  broadcast succeeds and adds no message, and the count it returns is NULL, not 0:
  \<open>array_agg\<close> over no rows is NULL and so is \<open>array_length\<close> of it.
\<close>

theorem broadcast_no_connections_null_count:
  "broadcast_request sample_db 4 10
     = (Inr \<lparr>broadcast_to = None, br_request_id = 10, br_status = ''sent''\<rparr>, sample_db)"
  by (simp add: example_defs builtin_defs function_defs)

end
